theory Spec2Isabelle
  imports Main "HOL-Library.Word"
begin

unbundle bit_operations_syntax

section \<open>Build-time configuration of lcd.h\<close>

text \<open>
  The driver is configured by macros: one drawing mode, one data mode, and the registers
  and pins of the chosen data mode. The macros become one configuration value; a port
  macro is the number of an 8-bit output register, a pin or bit macro a bit position.
\<close>

datatype drawing_mode = LCD_MODE_BUFFERED | LCD_MODE_IMMEDIATE

datatype data_mode =
    LCD_DMP_CONTROL_TOGETHER
  | LCD_DMP_CONTROL_INDIVIDUAL
  | LCD_DATA_MODE_SERIAL

record lcd_config =
  LCD_MODE :: drawing_mode
  LCD_DATA_MODE :: data_mode
  LCD_DMP_PORT_DATA :: nat
  LCD_DMP_PORT_CONTROL :: nat
  LCD_DMP_PORT_CSEL1 :: nat
  LCD_DMP_PORT_CSEL2 :: nat
  LCD_DMP_PORT_COMMAND_DATA :: nat
  LCD_DMP_PORT_ENABLE :: nat
  LCD_DMP_PIN_CSEL1 :: nat
  LCD_DMP_PIN_CSEL2 :: nat
  LCD_DMP_PIN_COMMAND_DATA :: nat
  LCD_DMP_PIN_ENABLE :: nat
  LCD_DMS_PORT_CLOCK :: nat
  LCD_DMS_PORT_SERIAL :: nat
  LCD_DMS_PORT_ENABLE :: nat
  LCD_DMS_PIN_CLOCK :: nat
  LCD_DMS_PIN_SERIAL :: nat
  LCD_DMS_PIN_ENABLE :: nat
  LCD_DMS_SR_BIT_CSEL1 :: nat
  LCD_DMS_SR_BIT_CSEL2 :: nat
  LCD_DMS_SR_BIT_COMMAND_DATA :: nat

section \<open>The hardware the driver writes to\<close>

text \<open>
  What the header's introduction says of the wiring: the output registers; in serial data
  mode two chained 8-bit shift registers whose register clock is tied to the shift clock
  (bit 0 to 7 of \<open>shift_reg\<close> are Qa to Qh of the first one, which carries DB0 to DB7, bit 8
  to 10 are Qa to Qc of the second one); and the display, which takes CSEL1, CSEL2,
  Command/Data and DB0 to DB7 as they stand while its enable pin is high. \<open>latched\<close> lists
  what the display has taken, oldest first. The busy-wait delays are not modelled.
\<close>

datatype lines =
  Lines (line_csel1: bool) (line_csel2: bool) (line_command_data: bool) (line_db: "8 word")

record lcd_hw =
  ports :: "nat \<Rightarrow> 8 word"
  shift_reg :: "16 word"
  out_reg :: "16 word"
  latched :: "lines list"

text \<open>\<open>PORT |= (1 << PIN)\<close> and \<open>PORT &= ~(1 << PIN)\<close>.\<close>

definition turn_on_pin :: "nat \<Rightarrow> nat \<Rightarrow> lcd_hw \<Rightarrow> lcd_hw" where
  "turn_on_pin port pin h = h\<lparr>ports := (ports h)(port := ports h port OR push_bit pin 1)\<rparr>"

definition turn_off_pin :: "nat \<Rightarrow> nat \<Rightarrow> lcd_hw \<Rightarrow> lcd_hw" where
  "turn_off_pin port pin h =
     h\<lparr>ports := (ports h)(port := ports h port AND NOT (push_bit pin 1))\<rparr>"

text \<open>The levels at the display's pins, by data mode.\<close>

definition device_lines :: "lcd_config \<Rightarrow> lcd_hw \<Rightarrow> lines" where
  "device_lines cfg h =
     (case LCD_DATA_MODE cfg of
        LCD_DMP_CONTROL_TOGETHER \<Rightarrow>
          Lines (bit (ports h (LCD_DMP_PORT_CONTROL cfg)) (LCD_DMP_PIN_CSEL1 cfg))
                (bit (ports h (LCD_DMP_PORT_CONTROL cfg)) (LCD_DMP_PIN_CSEL2 cfg))
                (bit (ports h (LCD_DMP_PORT_CONTROL cfg)) (LCD_DMP_PIN_COMMAND_DATA cfg))
                (ports h (LCD_DMP_PORT_DATA cfg))
      | LCD_DMP_CONTROL_INDIVIDUAL \<Rightarrow>
          Lines (bit (ports h (LCD_DMP_PORT_CSEL1 cfg)) (LCD_DMP_PIN_CSEL1 cfg))
                (bit (ports h (LCD_DMP_PORT_CSEL2 cfg)) (LCD_DMP_PIN_CSEL2 cfg))
                (bit (ports h (LCD_DMP_PORT_COMMAND_DATA cfg)) (LCD_DMP_PIN_COMMAND_DATA cfg))
                (ports h (LCD_DMP_PORT_DATA cfg))
      | LCD_DATA_MODE_SERIAL \<Rightarrow>
          Lines (bit (out_reg h) (8 + LCD_DMS_SR_BIT_CSEL1 cfg))
                (bit (out_reg h) (8 + LCD_DMS_SR_BIT_CSEL2 cfg))
                (bit (out_reg h) (8 + LCD_DMS_SR_BIT_COMMAND_DATA cfg))
                (ucast (out_reg h)))"

text \<open>
  The enable pulse that ends every send: enable high (the display takes its lines), then
  enable low.
\<close>

definition enable_pulse :: "lcd_config \<Rightarrow> nat \<Rightarrow> nat \<Rightarrow> lcd_hw \<Rightarrow> lcd_hw" where
  "enable_pulse cfg port pin h =
     (let h = turn_on_pin port pin h;
          h = h\<lparr>latched := latched h @ [device_lines cfg h]\<rparr>
      in turn_off_pin port pin h)"

subsection \<open>Serial data mode\<close>

definition LCD_TURN_ON_SERIAL :: "lcd_config \<Rightarrow> lcd_hw \<Rightarrow> lcd_hw" where
  "LCD_TURN_ON_SERIAL cfg h = turn_on_pin (LCD_DMS_PORT_SERIAL cfg) (LCD_DMS_PIN_SERIAL cfg) h"

definition LCD_TURN_OFF_SERIAL :: "lcd_config \<Rightarrow> lcd_hw \<Rightarrow> lcd_hw" where
  "LCD_TURN_OFF_SERIAL cfg h = turn_off_pin (LCD_DMS_PORT_SERIAL cfg) (LCD_DMS_PIN_SERIAL cfg) h"

text \<open>
  A rising clock edge copies the shift register to the output register and shifts the
  level of the serial pin in at Qa of the first register.
\<close>

definition LCD_TURN_ON_CLOCK :: "lcd_config \<Rightarrow> lcd_hw \<Rightarrow> lcd_hw" where
  "LCD_TURN_ON_CLOCK cfg h =
     (let was_high = bit (ports h (LCD_DMS_PORT_CLOCK cfg)) (LCD_DMS_PIN_CLOCK cfg);
          h = turn_on_pin (LCD_DMS_PORT_CLOCK cfg) (LCD_DMS_PIN_CLOCK cfg) h
      in if was_high then h
         else h\<lparr>out_reg := shift_reg h,
                 shift_reg := push_bit 1 (shift_reg h) OR
                   (if bit (ports h (LCD_DMS_PORT_SERIAL cfg)) (LCD_DMS_PIN_SERIAL cfg)
                    then 1 else 0)\<rparr>)"

definition LCD_TURN_OFF_CLOCK :: "lcd_config \<Rightarrow> lcd_hw \<Rightarrow> lcd_hw" where
  "LCD_TURN_OFF_CLOCK cfg h = turn_off_pin (LCD_DMS_PORT_CLOCK cfg) (LCD_DMS_PIN_CLOCK cfg) h"

definition LCD_TOGGLE_CLOCK :: "lcd_config \<Rightarrow> lcd_hw \<Rightarrow> lcd_hw" where
  "LCD_TOGGLE_CLOCK cfg h = LCD_TURN_OFF_CLOCK cfg (LCD_TURN_ON_CLOCK cfg h)"

text \<open>
  One line pair of \<open>uc_lcd_shift_out\<close>:
  \<open>if ( v & mask ) LCD_TURN_ON_SERIAL else LCD_TURN_OFF_SERIAL  LCD_TOGGLE_CLOCK\<close>.
\<close>

definition shift_bit :: "lcd_config \<Rightarrow> bool \<Rightarrow> lcd_hw \<Rightarrow> lcd_hw" where
  "shift_bit cfg b h =
     LCD_TOGGLE_CLOCK cfg (if b then LCD_TURN_ON_SERIAL cfg h else LCD_TURN_OFF_SERIAL cfg h)"

definition uc_lcd_shift_out :: "lcd_config \<Rightarrow> 8 word \<Rightarrow> 8 word \<Rightarrow> lcd_hw \<Rightarrow> lcd_hw" where
  "uc_lcd_shift_out cfg instructions data h =
     (let h = shift_bit cfg (instructions AND 4 \<noteq> 0) h;
          instructions = push_bit 1 instructions;
          h = shift_bit cfg (instructions AND 4 \<noteq> 0) h;
          instructions = push_bit 1 instructions;
          h = shift_bit cfg (instructions AND 4 \<noteq> 0) h;
          h = shift_bit cfg (data AND 128 \<noteq> 0) h;
          data = push_bit 1 data;
          h = shift_bit cfg (data AND 128 \<noteq> 0) h;
          data = push_bit 1 data;
          h = shift_bit cfg (data AND 128 \<noteq> 0) h;
          data = push_bit 1 data;
          h = shift_bit cfg (data AND 128 \<noteq> 0) h;
          data = push_bit 1 data;
          h = shift_bit cfg (data AND 128 \<noteq> 0) h;
          data = push_bit 1 data;
          h = shift_bit cfg (data AND 128 \<noteq> 0) h;
          data = push_bit 1 data;
          h = shift_bit cfg (data AND 128 \<noteq> 0) h;
          data = push_bit 1 data;
          h = shift_bit cfg (data AND 128 \<noteq> 0) h
      in LCD_TOGGLE_CLOCK cfg h)"

subsection \<open>The three bodies of \<open>uc_lcd_send\<close>\<close>

definition send_parallel_together ::
  "lcd_config \<Rightarrow> 8 word \<Rightarrow> 8 word \<Rightarrow> 8 word \<Rightarrow> 8 word \<Rightarrow> lcd_hw \<Rightarrow> lcd_hw" where
  "send_parallel_together cfg csel1 csel2 command_data data h =
     (let h = h\<lparr>ports := (ports h)(LCD_DMP_PORT_DATA cfg := data)\<rparr>;
          h = h\<lparr>ports := (ports h)(LCD_DMP_PORT_CONTROL cfg :=
                 ports h (LCD_DMP_PORT_CONTROL cfg) OR
                   (push_bit (LCD_DMP_PIN_CSEL1 cfg) csel1 OR
                    push_bit (LCD_DMP_PIN_CSEL2 cfg) csel2 OR
                    push_bit (LCD_DMP_PIN_COMMAND_DATA cfg) command_data))\<rparr>
      in enable_pulse cfg (LCD_DMP_PORT_CONTROL cfg) (LCD_DMP_PIN_ENABLE cfg) h)"

definition send_parallel_individual ::
  "lcd_config \<Rightarrow> 8 word \<Rightarrow> 8 word \<Rightarrow> 8 word \<Rightarrow> 8 word \<Rightarrow> lcd_hw \<Rightarrow> lcd_hw" where
  "send_parallel_individual cfg csel1 csel2 command_data data h =
     (let h = h\<lparr>ports := (ports h)(LCD_DMP_PORT_DATA cfg := data)\<rparr>;
          h = h\<lparr>ports := (ports h)(LCD_DMP_PORT_CSEL1 cfg :=
                 ports h (LCD_DMP_PORT_CSEL1 cfg) OR push_bit (LCD_DMP_PIN_CSEL1 cfg) csel1)\<rparr>;
          h = h\<lparr>ports := (ports h)(LCD_DMP_PORT_CSEL2 cfg :=
                 ports h (LCD_DMP_PORT_CSEL2 cfg) OR push_bit (LCD_DMP_PIN_CSEL2 cfg) csel1)\<rparr>;
          h = h\<lparr>ports := (ports h)(LCD_DMP_PORT_COMMAND_DATA cfg :=
                 ports h (LCD_DMP_PORT_COMMAND_DATA cfg) OR
                   push_bit (LCD_DMP_PIN_COMMAND_DATA cfg) csel1)\<rparr>
      in enable_pulse cfg (LCD_DMP_PORT_ENABLE cfg) (LCD_DMP_PIN_ENABLE cfg) h)"

definition send_serial ::
  "lcd_config \<Rightarrow> 8 word \<Rightarrow> 8 word \<Rightarrow> 8 word \<Rightarrow> 8 word \<Rightarrow> lcd_hw \<Rightarrow> lcd_hw" where
  "send_serial cfg csel1 csel2 command_data data h =
     (let h = uc_lcd_shift_out cfg
                (push_bit (LCD_DMS_SR_BIT_CSEL1 cfg) csel1 OR
                 push_bit (LCD_DMS_SR_BIT_CSEL2 cfg) csel2 OR
                 push_bit (LCD_DMS_SR_BIT_COMMAND_DATA cfg) command_data)
                data h
      in enable_pulse cfg (LCD_DMS_PORT_ENABLE cfg) (LCD_DMS_PIN_ENABLE cfg) h)"

section \<open>The driver's variables\<close>

text \<open>
  The globals of lcd.h. The cache of columns and pages and the grouping level exist in
  immediate mode only, \<open>uc_lcd_data_changed\<close> in buffered mode only; each function below
  touches only those of its mode. \<open>transfers\<close> is not a variable of the source: it lists the
  arguments of every call of \<open>uc_lcd_send\<close>, oldest first, so that what the driver asks the
  transport to send can be stated.
\<close>

datatype transfer =
  Transfer (sent_csel1: "8 word") (sent_csel2: "8 word") (sent_command_data: "8 word")
    (sent_data: "8 word")

record lcd_state =
  uc_lcd_buffer :: "8 word list"
  uc_lcd_inverted :: "8 word"
  uc_lcd_current_column_chip1 :: "8 word"
  uc_lcd_current_column_chip2 :: "8 word"
  uc_lcd_current_page_chip1 :: "8 word"
  uc_lcd_current_page_chip2 :: "8 word"
  uc_lcd_grouped_pixel_actions_level :: "8 word"
  uc_lcd_data_changed :: "8 word"
  hw :: lcd_hw
  transfers :: "transfer list"

section \<open>Transport\<close>

definition uc_lcd_send ::
  "lcd_config \<Rightarrow> 8 word \<Rightarrow> 8 word \<Rightarrow> 8 word \<Rightarrow> 8 word \<Rightarrow> lcd_state \<Rightarrow> lcd_state" where
  "uc_lcd_send cfg csel1 csel2 command_data data s =
     s\<lparr>hw := (case LCD_DATA_MODE cfg of
                 LCD_DMP_CONTROL_TOGETHER \<Rightarrow>
                   send_parallel_together cfg csel1 csel2 command_data data (hw s)
               | LCD_DMP_CONTROL_INDIVIDUAL \<Rightarrow>
                   send_parallel_individual cfg csel1 csel2 command_data data (hw s)
               | LCD_DATA_MODE_SERIAL \<Rightarrow>
                   send_serial cfg csel1 csel2 command_data data (hw s)),
       transfers := transfers s @ [Transfer csel1 csel2 command_data data]\<rparr>"

definition uc_lcd_turn_on :: "lcd_config \<Rightarrow> lcd_state \<Rightarrow> lcd_state" where
  "uc_lcd_turn_on cfg s = uc_lcd_send cfg 1 1 0 0x3F s"

definition uc_lcd_turn_off :: "lcd_config \<Rightarrow> lcd_state \<Rightarrow> lcd_state" where
  "uc_lcd_turn_off cfg s = uc_lcd_send cfg 1 1 0 0x3E s"

definition uc_lcd_set_startline :: "lcd_config \<Rightarrow> 8 word \<Rightarrow> lcd_state \<Rightarrow> lcd_state" where
  "uc_lcd_set_startline cfg startline s = uc_lcd_send cfg 1 1 0 (0xC0 OR startline) s"

definition uc_lcd_set_page_chip_1 :: "lcd_config \<Rightarrow> 8 word \<Rightarrow> lcd_state \<Rightarrow> lcd_state" where
  "uc_lcd_set_page_chip_1 cfg page s =
     (case LCD_MODE cfg of
        LCD_MODE_IMMEDIATE \<Rightarrow>
          if page \<noteq> uc_lcd_current_page_chip1 s
          then (uc_lcd_send cfg 1 0 0 (0xB8 OR (page AND 7)) s)
                 \<lparr>uc_lcd_current_page_chip1 := page\<rparr>
          else s
      | LCD_MODE_BUFFERED \<Rightarrow> uc_lcd_send cfg 1 0 0 (0xB8 OR (page AND 7)) s)"

definition uc_lcd_set_page_chip_2 :: "lcd_config \<Rightarrow> 8 word \<Rightarrow> lcd_state \<Rightarrow> lcd_state" where
  "uc_lcd_set_page_chip_2 cfg page s =
     (case LCD_MODE cfg of
        LCD_MODE_IMMEDIATE \<Rightarrow>
          if page \<noteq> uc_lcd_current_page_chip2 s
          then (uc_lcd_send cfg 0 1 0 (0xB8 OR (page AND 7)) s)
                 \<lparr>uc_lcd_current_page_chip2 := page\<rparr>
          else s
      | LCD_MODE_BUFFERED \<Rightarrow> uc_lcd_send cfg 0 1 0 (0xB8 OR (page AND 7)) s)"

text \<open>The two column setters compare the column with \<open>uc_lcd_current_page_chip\<close>N, as written.\<close>

definition uc_lcd_set_column_chip_1 :: "lcd_config \<Rightarrow> 8 word \<Rightarrow> lcd_state \<Rightarrow> lcd_state" where
  "uc_lcd_set_column_chip_1 cfg column s =
     (case LCD_MODE cfg of
        LCD_MODE_IMMEDIATE \<Rightarrow>
          if column \<noteq> uc_lcd_current_page_chip1 s
          then (uc_lcd_send cfg 1 0 0 (0x40 OR (column AND 0x3F)) s)
                 \<lparr>uc_lcd_current_column_chip1 := column\<rparr>
          else s
      | LCD_MODE_BUFFERED \<Rightarrow> uc_lcd_send cfg 1 0 0 (0x40 OR (column AND 0x3F)) s)"

definition uc_lcd_set_column_chip_2 :: "lcd_config \<Rightarrow> 8 word \<Rightarrow> lcd_state \<Rightarrow> lcd_state" where
  "uc_lcd_set_column_chip_2 cfg column s =
     (case LCD_MODE cfg of
        LCD_MODE_IMMEDIATE \<Rightarrow>
          if column \<noteq> uc_lcd_current_page_chip2 s
          then (uc_lcd_send cfg 0 1 0 (0x40 OR (column AND 0x3F)) s)
                 \<lparr>uc_lcd_current_column_chip2 := column\<rparr>
          else s
      | LCD_MODE_BUFFERED \<Rightarrow> uc_lcd_send cfg 0 1 0 (0x40 OR (column AND 0x3F)) s)"

text \<open>
  \<open>(uc_lcd_current_column_chip1 + 1) % 64\<close> is computed in \<open>int\<close> (the operand is promoted)
  and stored back in 8 bits.
\<close>

definition uc_lcd_write_chip1 :: "lcd_config \<Rightarrow> 8 word \<Rightarrow> lcd_state \<Rightarrow> lcd_state" where
  "uc_lcd_write_chip1 cfg d s =
     (let s = uc_lcd_send cfg 1 0 1 d s
      in case LCD_MODE cfg of
           LCD_MODE_IMMEDIATE \<Rightarrow>
             s\<lparr>uc_lcd_current_column_chip1 :=
                 of_nat ((unat (uc_lcd_current_column_chip1 s) + 1) mod 64)\<rparr>
         | LCD_MODE_BUFFERED \<Rightarrow> s)"

definition uc_lcd_write_chip2 :: "lcd_config \<Rightarrow> 8 word \<Rightarrow> lcd_state \<Rightarrow> lcd_state" where
  "uc_lcd_write_chip2 cfg d s =
     (let s = uc_lcd_send cfg 0 1 1 d s
      in case LCD_MODE cfg of
           LCD_MODE_IMMEDIATE \<Rightarrow>
             s\<lparr>uc_lcd_current_column_chip2 :=
                 of_nat ((unat (uc_lcd_current_column_chip2 s) + 1) mod 64)\<rparr>
         | LCD_MODE_BUFFERED \<Rightarrow> s)"

section \<open>Sending the buffer\<close>

text \<open>
  The inner loop \<open>for ( uint8_t column = 0; column < 64; column++ )\<close> of
  \<open>uc_lcd_send_buffer_to_lcd\<close>, with \<open>index\<close> carried along. \<open>index\<close> is a
  \<open>uint16_t\<close> that counts from 0 to 1024, so it never wraps and is a \<open>nat\<close> here.
\<close>

definition send_page_columns ::
  "lcd_config \<Rightarrow> 8 word \<Rightarrow> 8 word \<Rightarrow> nat \<times> lcd_state \<Rightarrow> nat \<times> lcd_state" where
  "send_page_columns cfg csel1 csel2 =
     fold (\<lambda>column (index, s).
             (index + 1, uc_lcd_send cfg csel1 csel2 1 (uc_lcd_buffer s ! index) s))
          [0..<64]"

definition send_pages_chip_1 :: "lcd_config \<Rightarrow> nat \<times> lcd_state \<Rightarrow> nat \<times> lcd_state" where
  "send_pages_chip_1 cfg =
     fold (\<lambda>page (index, s).
             send_page_columns cfg 1 0 (index, uc_lcd_set_page_chip_1 cfg (of_nat page) s))
          [0..<8]"

definition send_pages_chip_2 :: "lcd_config \<Rightarrow> nat \<times> lcd_state \<Rightarrow> nat \<times> lcd_state" where
  "send_pages_chip_2 cfg =
     fold (\<lambda>page (index, s).
             send_page_columns cfg 0 1 (index, uc_lcd_set_page_chip_2 cfg (of_nat page) s))
          [0..<8]"

definition uc_lcd_send_buffer_to_lcd :: "lcd_config \<Rightarrow> lcd_state \<Rightarrow> lcd_state" where
  "uc_lcd_send_buffer_to_lcd cfg s =
     (let index = 0;
          s = uc_lcd_set_column_chip_1 cfg 0 s;
          (index, s) = send_pages_chip_1 cfg (index, s);
          s = uc_lcd_set_column_chip_2 cfg 0 s;
          (index, s) = send_pages_chip_2 cfg (index, s);
          s = uc_lcd_set_page_chip_1 cfg 0 s
      in uc_lcd_set_page_chip_2 cfg 0 s)"

text \<open>Buffered mode only.\<close>

definition uc_lcd_flush :: "lcd_config \<Rightarrow> lcd_state \<Rightarrow> lcd_state" where
  "uc_lcd_flush cfg s =
     (if uc_lcd_data_changed s \<noteq> 0
      then (uc_lcd_send_buffer_to_lcd cfg s)\<lparr>uc_lcd_data_changed := 0\<rparr>
      else s)"

section \<open>Inversion, clear and fill\<close>

definition uc_lcd_is_inverted :: "lcd_state \<Rightarrow> 8 word" where
  "uc_lcd_is_inverted s = uc_lcd_inverted s"

text \<open>What the two drawing modes do once the buffer has been rewritten.\<close>

definition buffer_rewritten :: "lcd_config \<Rightarrow> lcd_state \<Rightarrow> lcd_state" where
  "buffer_rewritten cfg s =
     (case LCD_MODE cfg of
        LCD_MODE_BUFFERED \<Rightarrow> s\<lparr>uc_lcd_data_changed := 1\<rparr>
      | LCD_MODE_IMMEDIATE \<Rightarrow> uc_lcd_send_buffer_to_lcd cfg s)"

definition uc_lcd_set_inverted :: "lcd_config \<Rightarrow> 8 word \<Rightarrow> lcd_state \<Rightarrow> lcd_state" where
  "uc_lcd_set_inverted cfg invert s =
     (if invert \<noteq> uc_lcd_inverted s
      then let s = s\<lparr>uc_lcd_buffer :=
                       fold (\<lambda>i b. b[i := NOT (b ! i)]) [0..<1024] (uc_lcd_buffer s)\<rparr>;
               s = s\<lparr>uc_lcd_inverted := invert\<rparr>
           in buffer_rewritten cfg s
      else s)"

definition uc_lcd_clear :: "lcd_config \<Rightarrow> lcd_state \<Rightarrow> lcd_state" where
  "uc_lcd_clear cfg s =
     (let s = (if uc_lcd_inverted s \<noteq> 0
               then s\<lparr>uc_lcd_buffer := fold (\<lambda>i b. b[i := 0xFF]) [0..<1024] (uc_lcd_buffer s)\<rparr>
               else s\<lparr>uc_lcd_buffer := fold (\<lambda>i b. b[i := 0x00]) [0..<1024] (uc_lcd_buffer s)\<rparr>)
      in buffer_rewritten cfg s)"

definition uc_lcd_fill :: "lcd_config \<Rightarrow> lcd_state \<Rightarrow> lcd_state" where
  "uc_lcd_fill cfg s =
     (let s = (if uc_lcd_inverted s \<noteq> 0
               then s\<lparr>uc_lcd_buffer := fold (\<lambda>i b. b[i := 0x00]) [0..<1024] (uc_lcd_buffer s)\<rparr>
               else s\<lparr>uc_lcd_buffer := fold (\<lambda>i b. b[i := 0xFF]) [0..<1024] (uc_lcd_buffer s)\<rparr>)
      in buffer_rewritten cfg s)"

section \<open>Grouped pixel changes (immediate mode only)\<close>

definition uc_lcd_enter_grouped_pixel_changes :: "lcd_state \<Rightarrow> lcd_state" where
  "uc_lcd_enter_grouped_pixel_changes s =
     s\<lparr>uc_lcd_grouped_pixel_actions_level := uc_lcd_grouped_pixel_actions_level s + 1\<rparr>"

definition uc_lcd_leave_grouped_pixel_changes :: "lcd_config \<Rightarrow> lcd_state \<Rightarrow> lcd_state" where
  "uc_lcd_leave_grouped_pixel_changes cfg s =
     (let s = s\<lparr>uc_lcd_grouped_pixel_actions_level := uc_lcd_grouped_pixel_actions_level s - 1\<rparr>
      in if uc_lcd_grouped_pixel_actions_level s = 0
         then uc_lcd_send_buffer_to_lcd cfg s
         else s)"

section \<open>Setting a pixel\<close>

text \<open>
  \<open>buffer_index\<close> is a \<open>uint16_t\<close> of at most 63 + 7 * 64 + 512 = 1023: it never wraps
  and is a \<open>nat\<close> here. \<open>1 << bit\<close> is an \<open>int\<close> whose low byte is what reaches \<open>data\<close>.
\<close>

definition uc_lcd_set_pixel ::
  "lcd_config \<Rightarrow> 8 word \<Rightarrow> 8 word \<Rightarrow> 8 word \<Rightarrow> lcd_state \<Rightarrow> lcd_state" where
  "uc_lcd_set_pixel cfg x y pixel s =
     (if x > 127 then s
      else if y > 63 then s
      else
        let chip_1 = x < 64;
            column = x mod 64;
            page = y div 8;
            bit_no = y mod 8;
            buffer_index = unat column + unat page * 64;
            buffer_index = (if \<not> chip_1 then buffer_index + 512 else buffer_index);
            d = uc_lcd_buffer s ! buffer_index;
            d = (if uc_lcd_inverted s \<noteq> 0
                 then (if pixel \<noteq> 0 then d AND NOT (push_bit (unat bit_no) 1)
                       else d OR push_bit (unat bit_no) 1)
                 else (if pixel \<noteq> 0 then d OR push_bit (unat bit_no) 1
                       else d AND NOT (push_bit (unat bit_no) 1)));
            s = s\<lparr>uc_lcd_buffer := (uc_lcd_buffer s)[buffer_index := d]\<rparr>
        in case LCD_MODE cfg of
             LCD_MODE_BUFFERED \<Rightarrow> s\<lparr>uc_lcd_data_changed := 1\<rparr>
           | LCD_MODE_IMMEDIATE \<Rightarrow>
               if uc_lcd_grouped_pixel_actions_level s = 0
               then if chip_1
                    then uc_lcd_write_chip1 cfg d
                           (uc_lcd_set_column_chip_1 cfg column
                             (uc_lcd_set_page_chip_1 cfg page s))
                    else uc_lcd_write_chip2 cfg d
                           (uc_lcd_set_column_chip_2 cfg column
                             (uc_lcd_set_page_chip_2 cfg page s))
               else s)"

section \<open>Observations\<close>

text \<open>Command/Data is LOW for a command and HIGH for data.\<close>

definition is_data :: "transfer \<Rightarrow> bool" where
  "is_data t = (sent_command_data t \<noteq> 0)"

text \<open>The bytes of the data transfers in a list of transfers, in order.\<close>

definition data_bytes :: "transfer list \<Rightarrow> 8 word list" where
  "data_bytes ts = map sent_data (filter is_data ts)"

text \<open>
  The driver is write-only and has no function that reads a pixel. This observation reads
  the bit that \<open>uc_lcd_set_pixel\<close> writes for (x, y), through the polarity that
  \<open>uc_lcd_set_pixel\<close> writes it with: the pixel is on when the stored bit differs from
  the inverted flag.
\<close>

definition pixel_is_on :: "lcd_state \<Rightarrow> 8 word \<Rightarrow> 8 word \<Rightarrow> bool" where
  "pixel_is_on s x y =
     (bit (uc_lcd_buffer s ! (unat x mod 64 + (unat y div 8) * 64 + (if x < 64 then 0 else 512)))
          (unat y mod 8)
      \<noteq> (uc_lcd_inverted s \<noteq> 0))"

text \<open>A run of \<open>uc_lcd_set_pixel\<close> calls, given as (x, y, pixel) triples.\<close>

definition set_pixels ::
  "lcd_config \<Rightarrow> (8 word \<times> 8 word \<times> 8 word) list \<Rightarrow> lcd_state \<Rightarrow> lcd_state" where
  "set_pixels cfg ps s = fold (\<lambda>(x, y, pixel) s. uc_lcd_set_pixel cfg x y pixel s) ps s"

section \<open>Concrete configurations and states\<close>

text \<open>
  A wiring for each data mode: data on register 0, the shared control register 1, the
  individual control registers 2 to 5, the serial pins on register 6; and the state after
  power-up with everything low and the buffer zeroed, as C initialises the globals.
\<close>

definition wiring :: "drawing_mode \<Rightarrow> data_mode \<Rightarrow> lcd_config" where
  "wiring m d =
     \<lparr>LCD_MODE = m, LCD_DATA_MODE = d,
      LCD_DMP_PORT_DATA = 0, LCD_DMP_PORT_CONTROL = 1,
      LCD_DMP_PORT_CSEL1 = 2, LCD_DMP_PORT_CSEL2 = 3,
      LCD_DMP_PORT_COMMAND_DATA = 4, LCD_DMP_PORT_ENABLE = 5,
      LCD_DMP_PIN_CSEL1 = 0, LCD_DMP_PIN_CSEL2 = 1,
      LCD_DMP_PIN_COMMAND_DATA = 2, LCD_DMP_PIN_ENABLE = 3,
      LCD_DMS_PORT_CLOCK = 6, LCD_DMS_PORT_SERIAL = 6, LCD_DMS_PORT_ENABLE = 6,
      LCD_DMS_PIN_CLOCK = 0, LCD_DMS_PIN_SERIAL = 1, LCD_DMS_PIN_ENABLE = 2,
      LCD_DMS_SR_BIT_CSEL1 = 0, LCD_DMS_SR_BIT_CSEL2 = 1, LCD_DMS_SR_BIT_COMMAND_DATA = 2\<rparr>"

definition hw_low :: lcd_hw where
  "hw_low = \<lparr>ports = (\<lambda>_. 0), shift_reg = 0, out_reg = 0, latched = []\<rparr>"

definition power_up :: lcd_state where
  "power_up =
     \<lparr>uc_lcd_buffer = replicate 1024 0, uc_lcd_inverted = 0,
      uc_lcd_current_column_chip1 = 0, uc_lcd_current_column_chip2 = 0,
      uc_lcd_current_page_chip1 = 0, uc_lcd_current_page_chip2 = 0,
      uc_lcd_grouped_pixel_actions_level = 0, uc_lcd_data_changed = 0,
      hw = hw_low, transfers = []\<rparr>"

section \<open>What the transport functions leave alone\<close>

lemma send_frame [simp]:
  "uc_lcd_buffer (uc_lcd_send cfg a b c d s) = uc_lcd_buffer s"
  "uc_lcd_inverted (uc_lcd_send cfg a b c d s) = uc_lcd_inverted s"
  "uc_lcd_grouped_pixel_actions_level (uc_lcd_send cfg a b c d s) = uc_lcd_grouped_pixel_actions_level s"
  "uc_lcd_data_changed (uc_lcd_send cfg a b c d s) = uc_lcd_data_changed s"
  "uc_lcd_current_column_chip1 (uc_lcd_send cfg a b c d s) = uc_lcd_current_column_chip1 s"
  "uc_lcd_current_column_chip2 (uc_lcd_send cfg a b c d s) = uc_lcd_current_column_chip2 s"
  "uc_lcd_current_page_chip1 (uc_lcd_send cfg a b c d s) = uc_lcd_current_page_chip1 s"
  "uc_lcd_current_page_chip2 (uc_lcd_send cfg a b c d s) = uc_lcd_current_page_chip2 s"
  "transfers (uc_lcd_send cfg a b c d s) = transfers s @ [Transfer a b c d]"
  by (simp_all add: uc_lcd_send_def)

lemma data_bytes_append [simp]: "data_bytes (xs @ ys) = data_bytes xs @ data_bytes ys"
  by (simp add: data_bytes_def)

lemma data_bytes_single [simp]:
  "data_bytes [Transfer a b c d] = (if c \<noteq> 0 then [d] else [])"
  by (simp add: data_bytes_def is_data_def)

lemma set_page_chip_1_frame [simp]:
  "uc_lcd_buffer (uc_lcd_set_page_chip_1 cfg p s) = uc_lcd_buffer s"
  "uc_lcd_inverted (uc_lcd_set_page_chip_1 cfg p s) = uc_lcd_inverted s"
  "uc_lcd_grouped_pixel_actions_level (uc_lcd_set_page_chip_1 cfg p s) = uc_lcd_grouped_pixel_actions_level s"
  "uc_lcd_data_changed (uc_lcd_set_page_chip_1 cfg p s) = uc_lcd_data_changed s"
  "data_bytes (transfers (uc_lcd_set_page_chip_1 cfg p s)) = data_bytes (transfers s)"
  by (simp_all add: uc_lcd_set_page_chip_1_def split: drawing_mode.split)

lemma set_page_chip_2_frame [simp]:
  "uc_lcd_buffer (uc_lcd_set_page_chip_2 cfg p s) = uc_lcd_buffer s"
  "uc_lcd_inverted (uc_lcd_set_page_chip_2 cfg p s) = uc_lcd_inverted s"
  "uc_lcd_grouped_pixel_actions_level (uc_lcd_set_page_chip_2 cfg p s) = uc_lcd_grouped_pixel_actions_level s"
  "uc_lcd_data_changed (uc_lcd_set_page_chip_2 cfg p s) = uc_lcd_data_changed s"
  "data_bytes (transfers (uc_lcd_set_page_chip_2 cfg p s)) = data_bytes (transfers s)"
  by (simp_all add: uc_lcd_set_page_chip_2_def split: drawing_mode.split)

lemma set_column_chip_1_frame [simp]:
  "uc_lcd_buffer (uc_lcd_set_column_chip_1 cfg p s) = uc_lcd_buffer s"
  "uc_lcd_inverted (uc_lcd_set_column_chip_1 cfg p s) = uc_lcd_inverted s"
  "uc_lcd_grouped_pixel_actions_level (uc_lcd_set_column_chip_1 cfg p s) = uc_lcd_grouped_pixel_actions_level s"
  "uc_lcd_data_changed (uc_lcd_set_column_chip_1 cfg p s) = uc_lcd_data_changed s"
  "data_bytes (transfers (uc_lcd_set_column_chip_1 cfg p s)) = data_bytes (transfers s)"
  by (simp_all add: uc_lcd_set_column_chip_1_def split: drawing_mode.split)

lemma set_column_chip_2_frame [simp]:
  "uc_lcd_buffer (uc_lcd_set_column_chip_2 cfg p s) = uc_lcd_buffer s"
  "uc_lcd_inverted (uc_lcd_set_column_chip_2 cfg p s) = uc_lcd_inverted s"
  "uc_lcd_grouped_pixel_actions_level (uc_lcd_set_column_chip_2 cfg p s) = uc_lcd_grouped_pixel_actions_level s"
  "uc_lcd_data_changed (uc_lcd_set_column_chip_2 cfg p s) = uc_lcd_data_changed s"
  "data_bytes (transfers (uc_lcd_set_column_chip_2 cfg p s)) = data_bytes (transfers s)"
  by (simp_all add: uc_lcd_set_column_chip_2_def split: drawing_mode.split)

lemma write_chip1_frame [simp]:
  "uc_lcd_buffer (uc_lcd_write_chip1 cfg d s) = uc_lcd_buffer s"
  "uc_lcd_inverted (uc_lcd_write_chip1 cfg d s) = uc_lcd_inverted s"
  "uc_lcd_grouped_pixel_actions_level (uc_lcd_write_chip1 cfg d s) = uc_lcd_grouped_pixel_actions_level s"
  "uc_lcd_data_changed (uc_lcd_write_chip1 cfg d s) = uc_lcd_data_changed s"
  by (simp_all add: uc_lcd_write_chip1_def Let_def split: drawing_mode.split)

lemma write_chip2_frame [simp]:
  "uc_lcd_buffer (uc_lcd_write_chip2 cfg d s) = uc_lcd_buffer s"
  "uc_lcd_inverted (uc_lcd_write_chip2 cfg d s) = uc_lcd_inverted s"
  "uc_lcd_grouped_pixel_actions_level (uc_lcd_write_chip2 cfg d s) = uc_lcd_grouped_pixel_actions_level s"
  "uc_lcd_data_changed (uc_lcd_write_chip2 cfg d s) = uc_lcd_data_changed s"
  by (simp_all add: uc_lcd_write_chip2_def Let_def split: drawing_mode.split)

section \<open>The loops of \<open>uc_lcd_send_buffer_to_lcd\<close>\<close>

text \<open>The inner loop, for any number of columns.\<close>

lemma columns_loop:
  "i + n \<le> length (uc_lcd_buffer s) \<Longrightarrow>
   fold (\<lambda>column (index, s).
           (index + 1, uc_lcd_send cfg a b 1 (uc_lcd_buffer s ! index) s)) [0..<n] (i, s)
     = (i', s') \<Longrightarrow>
   i' = i + n \<and> uc_lcd_buffer s' = uc_lcd_buffer s \<and> uc_lcd_inverted s' = uc_lcd_inverted s \<and>
   uc_lcd_grouped_pixel_actions_level s' = uc_lcd_grouped_pixel_actions_level s \<and>
   uc_lcd_data_changed s' = uc_lcd_data_changed s \<and>
   data_bytes (transfers s') = data_bytes (transfers s) @ take n (drop i (uc_lcd_buffer s))"
proof (induction n arbitrary: i' s')
  case 0
  then show ?case by simp
next
  case (Suc n)
  obtain j t where jt: "fold (\<lambda>column (index, s).
           (index + 1, uc_lcd_send cfg a b 1 (uc_lcd_buffer s ! index) s)) [0..<n] (i, s) = (j, t)"
    by (cases "fold (\<lambda>column (index, s).
           (index + 1, uc_lcd_send cfg a b 1 (uc_lcd_buffer s ! index) s)) [0..<n] (i, s)") 
  from Suc.prems have le: "i + n \<le> length (uc_lcd_buffer s)" by simp
  note ih = Suc.IH [OF le jt]
  from Suc.prems(2) jt have s': "s' = uc_lcd_send cfg a b 1 (uc_lcd_buffer t ! j) t" and i': "i' = j + 1"
    by simp_all
  from Suc.prems(1) have "i + n < length (uc_lcd_buffer s)" by simp
  then have "take (Suc n) (drop i (uc_lcd_buffer s)) = take n (drop i (uc_lcd_buffer s)) @ [uc_lcd_buffer s ! (i + n)]"
    by (simp add: take_Suc_conv_app_nth)
  with ih s' i' show ?case by simp
qed

lemma send_page_columns_result:
  assumes "i + 64 \<le> length (uc_lcd_buffer s)"
    and "send_page_columns cfg a b (i, s) = (i', s')"
  shows "i' = i + 64 \<and> uc_lcd_buffer s' = uc_lcd_buffer s \<and>
    uc_lcd_inverted s' = uc_lcd_inverted s \<and>
    uc_lcd_grouped_pixel_actions_level s' = uc_lcd_grouped_pixel_actions_level s \<and>
    uc_lcd_data_changed s' = uc_lcd_data_changed s \<and>
    data_bytes (transfers s') = data_bytes (transfers s) @ take 64 (drop i (uc_lcd_buffer s))"
  using columns_loop [of i 64 s cfg a b i' s'] assms
  by (simp add: send_page_columns_def)

text \<open>The outer loop, for any number of pages and either page setter.\<close>

lemma pages_loop:
  assumes setp: "\<And>p s. uc_lcd_buffer (setp p s) = uc_lcd_buffer s \<and>
      uc_lcd_inverted (setp p s) = uc_lcd_inverted s \<and>
      uc_lcd_grouped_pixel_actions_level (setp p s) = uc_lcd_grouped_pixel_actions_level s \<and>
      uc_lcd_data_changed (setp p s) = uc_lcd_data_changed s \<and>
      data_bytes (transfers (setp p s)) = data_bytes (transfers s)"
  shows "i + 64 * n \<le> length (uc_lcd_buffer s) \<Longrightarrow>
    fold (\<lambda>page (index, s). send_page_columns cfg a b (index, setp page s)) [0..<n] (i, s)
      = (i', s') \<Longrightarrow>
    i' = i + 64 * n \<and> uc_lcd_buffer s' = uc_lcd_buffer s \<and>
    uc_lcd_inverted s' = uc_lcd_inverted s \<and>
    uc_lcd_grouped_pixel_actions_level s' = uc_lcd_grouped_pixel_actions_level s \<and>
    uc_lcd_data_changed s' = uc_lcd_data_changed s \<and>
    data_bytes (transfers s') = data_bytes (transfers s) @ take (64 * n) (drop i (uc_lcd_buffer s))"
proof (induction n arbitrary: i' s')
  case 0
  then show ?case by simp
next
  case (Suc n)
  obtain j t where jt:
    "fold (\<lambda>page (index, s). send_page_columns cfg a b (index, setp page s)) [0..<n] (i, s)
       = (j, t)"
    by (cases "fold (\<lambda>page (index, s). send_page_columns cfg a b (index, setp page s))
                 [0..<n] (i, s)")
  from Suc.prems have le: "i + 64 * n \<le> length (uc_lcd_buffer s)" by simp
  note ih = Suc.IH [OF le jt]
  from Suc.prems(2) jt have step: "send_page_columns cfg a b (j, setp n t) = (i', s')"
    by simp
  from ih Suc.prems(1) setp [of n t]
  have room: "j + 64 \<le> length (uc_lcd_buffer (setp n t))" by simp
  note col = send_page_columns_result [OF room step]
  have "take (64 * Suc n) (drop i (uc_lcd_buffer s)) =
        take (64 * n) (drop i (uc_lcd_buffer s)) @ take 64 (drop (i + 64 * n) (uc_lcd_buffer s))"
    using take_add [of "64 * n" 64 "drop i (uc_lcd_buffer s)"]
    by (simp add: add.commute)
  with ih col setp [of n t] show ?case by simp
qed

lemma send_pages_chip_1_result:
  assumes "i + 512 \<le> length (uc_lcd_buffer s)"
    and "send_pages_chip_1 cfg (i, s) = (i', s')"
  shows "i' = i + 512 \<and> uc_lcd_buffer s' = uc_lcd_buffer s \<and>
    uc_lcd_inverted s' = uc_lcd_inverted s \<and>
    uc_lcd_grouped_pixel_actions_level s' = uc_lcd_grouped_pixel_actions_level s \<and>
    uc_lcd_data_changed s' = uc_lcd_data_changed s \<and>
    data_bytes (transfers s') = data_bytes (transfers s) @ take 512 (drop i (uc_lcd_buffer s))"
  using pages_loop [of "\<lambda>page. uc_lcd_set_page_chip_1 cfg (of_nat page)" i 8 s cfg 1 0 i' s'] assms
  by (simp add: send_pages_chip_1_def)

lemma send_pages_chip_2_result:
  assumes "i + 512 \<le> length (uc_lcd_buffer s)"
    and "send_pages_chip_2 cfg (i, s) = (i', s')"
  shows "i' = i + 512 \<and> uc_lcd_buffer s' = uc_lcd_buffer s \<and>
    uc_lcd_inverted s' = uc_lcd_inverted s \<and>
    uc_lcd_grouped_pixel_actions_level s' = uc_lcd_grouped_pixel_actions_level s \<and>
    uc_lcd_data_changed s' = uc_lcd_data_changed s \<and>
    data_bytes (transfers s') = data_bytes (transfers s) @ take 512 (drop i (uc_lcd_buffer s))"
  using pages_loop [of "\<lambda>page. uc_lcd_set_page_chip_2 cfg (of_nat page)" i 8 s cfg 0 1 i' s'] assms
  by (simp add: send_pages_chip_2_def)

lemma send_buffer_result:
  assumes len: "length (uc_lcd_buffer s) = 1024"
  shows "uc_lcd_buffer (uc_lcd_send_buffer_to_lcd cfg s) = uc_lcd_buffer s \<and>
    uc_lcd_inverted (uc_lcd_send_buffer_to_lcd cfg s) = uc_lcd_inverted s \<and>
    uc_lcd_grouped_pixel_actions_level (uc_lcd_send_buffer_to_lcd cfg s) =
      uc_lcd_grouped_pixel_actions_level s \<and>
    uc_lcd_data_changed (uc_lcd_send_buffer_to_lcd cfg s) = uc_lcd_data_changed s \<and>
    data_bytes (transfers (uc_lcd_send_buffer_to_lcd cfg s)) =
      data_bytes (transfers s) @ uc_lcd_buffer s"
proof -
  define s1 where "s1 = uc_lcd_set_column_chip_1 cfg 0 s"
  obtain i2 s2 where p1: "send_pages_chip_1 cfg (0, s1) = (i2, s2)"
    by (cases "send_pages_chip_1 cfg (0, s1)")
  define s3 where "s3 = uc_lcd_set_column_chip_2 cfg 0 s2"
  obtain i4 s4 where p2: "send_pages_chip_2 cfg (i2, s3) = (i4, s4)"
    by (cases "send_pages_chip_2 cfg (i2, s3)")
  have r1: "i2 = 512 \<and> uc_lcd_buffer s2 = uc_lcd_buffer s \<and>
    uc_lcd_inverted s2 = uc_lcd_inverted s \<and>
    uc_lcd_grouped_pixel_actions_level s2 = uc_lcd_grouped_pixel_actions_level s \<and>
    uc_lcd_data_changed s2 = uc_lcd_data_changed s \<and>
    data_bytes (transfers s2) = data_bytes (transfers s) @ take 512 (uc_lcd_buffer s)"
    using send_pages_chip_1_result [OF _ p1] len by (simp add: s1_def)
  have r2: "uc_lcd_buffer s4 = uc_lcd_buffer s \<and>
    uc_lcd_inverted s4 = uc_lcd_inverted s \<and>
    uc_lcd_grouped_pixel_actions_level s4 = uc_lcd_grouped_pixel_actions_level s \<and>
    uc_lcd_data_changed s4 = uc_lcd_data_changed s \<and>
    data_bytes (transfers s4) =
      data_bytes (transfers s) @ take 512 (uc_lcd_buffer s) @ drop 512 (uc_lcd_buffer s)"
    using send_pages_chip_2_result [OF _ p2] len r1 by (simp add: s3_def)
  have whole: "uc_lcd_send_buffer_to_lcd cfg s =
    uc_lcd_set_page_chip_2 cfg 0 (uc_lcd_set_page_chip_1 cfg 0 s4)"
    using p1 p2 by (simp add: uc_lcd_send_buffer_to_lcd_def s1_def s3_def)
  show ?thesis unfolding whole using r2 by simp
qed

section \<open>The loops over the whole buffer\<close>

lemma invert_loop_nth:
  "length (fold (\<lambda>i b. b[i := NOT (b ! i)]) [0..<n] (b :: 8 word list)) = length b \<and>
   (\<forall>k<length b. fold (\<lambda>i b. b[i := NOT (b ! i)]) [0..<n] b ! k =
      (if k < n then NOT (b ! k) else b ! k))"
  by (induction n) (auto simp add: nth_list_update less_Suc_eq)

lemma invert_loop:
  "length b = 1024 \<Longrightarrow> fold (\<lambda>i b. b[i := NOT (b ! i)]) [0..<1024] (b :: 8 word list) = map NOT b"
  by (rule nth_equalityI) (simp_all add: invert_loop_nth)

lemma store_loop_nth:
  "length (fold (\<lambda>i b. b[i := v]) [0..<n] (b :: 8 word list)) = length b \<and>
   (\<forall>k<length b. fold (\<lambda>i b. b[i := v]) [0..<n] b ! k = (if k < n then v else b ! k))"
  by (induction n) (auto simp add: nth_list_update less_Suc_eq)

lemma store_loop:
  "length b = 1024 \<Longrightarrow> fold (\<lambda>i b. b[i := v]) [0..<1024] (b :: 8 word list) = replicate 1024 v"
  by (rule nth_equalityI) (simp_all add: store_loop_nth)

lemma buffer_rewritten_frame:
  "length (uc_lcd_buffer s) = 1024 \<Longrightarrow>
   uc_lcd_buffer (buffer_rewritten cfg s) = uc_lcd_buffer s \<and>
   uc_lcd_inverted (buffer_rewritten cfg s) = uc_lcd_inverted s"
  by (simp add: buffer_rewritten_def send_buffer_result split: drawing_mode.split)

lemma set_inverted_result:
  "length (uc_lcd_buffer s) = 1024 \<Longrightarrow> invert \<noteq> uc_lcd_inverted s \<Longrightarrow>
   uc_lcd_buffer (uc_lcd_set_inverted cfg invert s) = map NOT (uc_lcd_buffer s) \<and>
   uc_lcd_inverted (uc_lcd_set_inverted cfg invert s) = invert"
  by (simp add: uc_lcd_set_inverted_def Let_def buffer_rewritten_frame invert_loop)

section \<open>Flushing\<close>

lemma flush_result:
  assumes "uc_lcd_data_changed s \<noteq> 0" and "length (uc_lcd_buffer s) = 1024"
  shows "uc_lcd_flush cfg s = (uc_lcd_send_buffer_to_lcd cfg s)\<lparr>uc_lcd_data_changed := 0\<rparr>"
    and "data_bytes (transfers (uc_lcd_flush cfg s)) = data_bytes (transfers s) @ uc_lcd_buffer s"
    and "uc_lcd_buffer (uc_lcd_flush cfg s) = uc_lcd_buffer s"
    and "uc_lcd_data_changed (uc_lcd_flush cfg s) = 0"
  using assms send_buffer_result [of s cfg] by (simp_all add: uc_lcd_flush_def)

section \<open>The byte and bit that \<open>uc_lcd_set_pixel\<close> writes\<close>

lemma pixel_index_bound:
  assumes "x \<le> (127 :: 8 word)" and "y \<le> (63 :: 8 word)"
  shows "unat x mod 64 + unat y div 8 * 64 + (if x < 64 then 0 else 512) < 1024"
proof -
  from assms(2) have "unat y \<le> 63" by (simp add: word_le_nat_alt)
  then have "unat y div 8 * 64 \<le> 448" by simp
  moreover have "unat x mod 64 < 64" by simp
  ultimately show ?thesis by (cases "x < 64") simp_all
qed

lemma set_pixel_buffer:
  assumes "x \<le> 127" and "y \<le> 63"
  shows "uc_lcd_buffer (uc_lcd_set_pixel cfg x y pixel s) =
    (uc_lcd_buffer s)
      [unat x mod 64 + unat y div 8 * 64 + (if x < 64 then 0 else 512) :=
         (if (pixel \<noteq> 0) \<noteq> (uc_lcd_inverted s \<noteq> 0)
          then uc_lcd_buffer s ! (unat x mod 64 + unat y div 8 * 64 + (if x < 64 then 0 else 512))
                 OR push_bit (unat y mod 8) 1
          else uc_lcd_buffer s ! (unat x mod 64 + unat y div 8 * 64 + (if x < 64 then 0 else 512))
                 AND NOT (push_bit (unat y mod 8) 1))]"
proof -
  from assms have nx: "\<not> 127 < x" and ny: "\<not> 63 < y" by simp_all
  show ?thesis
    by (cases "x < 64"; cases "pixel = 0"; cases "uc_lcd_inverted s = 0")
       (simp_all add: uc_lcd_set_pixel_def Let_def nx ny unat_mod unat_div
          split: drawing_mode.split)
qed

lemma set_pixel_inverted [simp]:
  "uc_lcd_inverted (uc_lcd_set_pixel cfg x y pixel s) = uc_lcd_inverted s"
  by (simp add: uc_lcd_set_pixel_def Let_def split: drawing_mode.split)

lemma set_pixel_length [simp]:
  "length (uc_lcd_buffer (uc_lcd_set_pixel cfg x y pixel s)) = length (uc_lcd_buffer s)"
  by (simp add: uc_lcd_set_pixel_def Let_def split: drawing_mode.split)

lemma bit_written:
  "n < 8 \<Longrightarrow> bit ((d :: 8 word) OR push_bit n 1) n"
  "\<not> bit ((d :: 8 word) AND NOT (push_bit n 1)) n"
  by (simp_all add: bit_simps)

lemma pixel_is_on_set_pixel:
  assumes "x \<le> 127" and "y \<le> 63" and "length (uc_lcd_buffer s) = 1024"
  shows "pixel_is_on (uc_lcd_set_pixel cfg x y pixel s) x y = (pixel \<noteq> 0)"
proof -
  define index where "index = unat x mod 64 + unat y div 8 * 64 + (if x < 64 then 0 else 512)"
  have bound: "index < 1024"
    unfolding index_def by (rule pixel_index_bound [OF assms(1,2)])
  have n: "unat y mod 8 < 8" by simp
  have byte: "uc_lcd_buffer (uc_lcd_set_pixel cfg x y pixel s) ! index =
      (if (pixel \<noteq> 0) \<noteq> (uc_lcd_inverted s \<noteq> 0)
       then uc_lcd_buffer s ! index OR push_bit (unat y mod 8) 1
       else uc_lcd_buffer s ! index AND NOT (push_bit (unat y mod 8) 1))"
    using bound assms(3)
    by (simp only: set_pixel_buffer [OF assms(1,2)] index_def [symmetric]) simp
  show ?thesis
    unfolding pixel_is_on_def index_def [symmetric] byte
    using bit_written(1) [OF n] bit_written(2)
    by (auto simp del: push_bit_of_1)
qed

lemma clear_result:
  assumes "length (uc_lcd_buffer s) = 1024"
  shows "uc_lcd_buffer (uc_lcd_clear cfg s) =
      replicate 1024 (if uc_lcd_inverted s = 0 then 0x00 else 0xFF) \<and>
    uc_lcd_inverted (uc_lcd_clear cfg s) = uc_lcd_inverted s"
  using assms
  by (simp add: uc_lcd_clear_def Let_def buffer_rewritten_frame store_loop)

lemma fill_result:
  assumes "length (uc_lcd_buffer s) = 1024"
  shows "uc_lcd_buffer (uc_lcd_fill cfg s) =
      replicate 1024 (if uc_lcd_inverted s = 0 then 0xFF else 0x00) \<and>
    uc_lcd_inverted (uc_lcd_fill cfg s) = uc_lcd_inverted s"
  using assms
  by (simp add: uc_lcd_fill_def Let_def buffer_rewritten_frame store_loop)

lemma bit_all_ones: "n < 8 \<Longrightarrow> bit (0xFF :: 8 word) n"
proof -
  have "(0xFF :: 8 word) = - 1" by simp
  then show "n < 8 \<Longrightarrow> bit (0xFF :: 8 word) n" by (simp only: bit_minus_1_iff) simp
qed

section \<open>Pixels set while changes are grouped\<close>

lemma set_pixel_grouped:
  assumes "LCD_MODE cfg = LCD_MODE_IMMEDIATE" and "uc_lcd_grouped_pixel_actions_level s \<noteq> 0"
  shows "uc_lcd_set_pixel cfg x y pixel s =
    s\<lparr>uc_lcd_buffer := uc_lcd_buffer (uc_lcd_set_pixel cfg x y pixel s)\<rparr>"
  using assms by (simp add: uc_lcd_set_pixel_def Let_def)

lemma set_pixels_grouped:
  assumes "LCD_MODE cfg = LCD_MODE_IMMEDIATE"
  shows "uc_lcd_grouped_pixel_actions_level s \<noteq> 0 \<Longrightarrow>
    set_pixels cfg ps s = s\<lparr>uc_lcd_buffer := uc_lcd_buffer (set_pixels cfg ps s)\<rparr>"
proof (induction ps arbitrary: s)
  case Nil
  then show ?case by (simp add: set_pixels_def)
next
  case (Cons p ps)
  obtain x y pixel where p: "p = (x, y, pixel)" by (cases p)
  define t where "t = uc_lcd_set_pixel cfg x y pixel s"
  have t: "t = s\<lparr>uc_lcd_buffer := uc_lcd_buffer t\<rparr>"
    unfolding t_def by (rule set_pixel_grouped [OF assms Cons.prems])
  then have "uc_lcd_grouped_pixel_actions_level t = uc_lcd_grouped_pixel_actions_level s"
    by (metis lcd_state.select_convs(7) lcd_state.surjective lcd_state.update_convs(1))
  with Cons.prems have lvl: "uc_lcd_grouped_pixel_actions_level t \<noteq> 0" by simp
  have step: "set_pixels cfg (p # ps) s = set_pixels cfg ps t"
    by (simp add: set_pixels_def p t_def)
  have "set_pixels cfg ps t = t\<lparr>uc_lcd_buffer := uc_lcd_buffer (set_pixels cfg ps t)\<rparr>"
    by (rule Cons.IH [OF lvl])
  also have "\<dots> = s\<lparr>uc_lcd_buffer := uc_lcd_buffer (set_pixels cfg ps t)\<rparr>"
    by (subst t) simp
  finally show ?case unfolding step .
qed

lemma set_pixels_length [simp]:
  "length (uc_lcd_buffer (set_pixels cfg ps s)) = length (uc_lcd_buffer s)"
proof (induction ps arbitrary: s)
  case Nil
  then show ?case by (simp add: set_pixels_def)
next
  case (Cons p ps)
  obtain x y pixel where p: "p = (x, y, pixel)" by (cases p)
  have "set_pixels cfg (p # ps) s = set_pixels cfg ps (uc_lcd_set_pixel cfg x y pixel s)"
    by (simp add: set_pixels_def p)
  then show ?case by (simp add: Cons.IH)
qed

section \<open>Claims\<close>

text \<open>
  C1: for x in [0,127] and y in [0,63], after \<open>uc_lcd_set_pixel\<close> with a pixel value that
  is true, the buffer byte at index (x mod 64) + (y / 8) * 64, plus 512 when x >= 64, has
  bit y mod 8 set when the inverted flag is false and cleared when it is true, whatever the
  byte held before.
\<close>

theorem set_pixel_sets_mapped_bit:
  assumes "x \<le> 127" and "y \<le> 63" and "pixel \<noteq> 0" and "length (uc_lcd_buffer s) = 1024"
  shows "let index = unat x mod 64 + unat y div 8 * 64 + (if 64 \<le> x then 512 else 0);
             byte = uc_lcd_buffer (uc_lcd_set_pixel cfg x y pixel s) ! index
         in index < 1024 \<and> bit byte (unat y mod 8) = (uc_lcd_inverted s = 0)"
proof -
  define index where "index = unat x mod 64 + unat y div 8 * 64 + (if x < 64 then 0 else 512)"
  have idx: "unat x mod 64 + unat y div 8 * 64 + (if 64 \<le> x then 512 else 0) = index"
    by (simp add: index_def not_less)
  have bound: "index < 1024"
    unfolding index_def by (rule pixel_index_bound [OF assms(1,2)])
  have n: "unat y mod 8 < 8" by simp
  have byte: "uc_lcd_buffer (uc_lcd_set_pixel cfg x y pixel s) ! index =
      (if uc_lcd_inverted s = 0
       then uc_lcd_buffer s ! index OR push_bit (unat y mod 8) 1
       else uc_lcd_buffer s ! index AND NOT (push_bit (unat y mod 8) 1))"
    using bound assms(3,4)
    by (simp only: set_pixel_buffer [OF assms(1,2)] index_def [symmetric]) simp
  show ?thesis
    unfolding Let_def idx byte using bound bit_written(1) [OF n] bit_written(2)
    by (simp del: push_bit_of_1)
qed

theorem set_pixel_sets_mapped_bit_witness:
  "(5 :: 8 word) \<le> 127 \<and> (3 :: 8 word) \<le> 63 \<and> (1 :: 8 word) \<noteq> 0 \<and>
   length (uc_lcd_buffer power_up) = 1024 \<and>
   (let index = unat (5 :: 8 word) mod 64 + unat (3 :: 8 word) div 8 * 64 +
                  (if 64 \<le> (5 :: 8 word) then 512 else 0);
        byte = uc_lcd_buffer
                 (uc_lcd_set_pixel (wiring LCD_MODE_IMMEDIATE LCD_DATA_MODE_SERIAL) 5 3 1 power_up)
                 ! index
    in index < 1024 \<and> bit byte (unat (3 :: 8 word) mod 8) = (uc_lcd_inverted power_up = 0))"
proof -
  have h1: "(5 :: 8 word) \<le> 127" by simp
  have h2: "(3 :: 8 word) \<le> 63" by simp
  have h3: "(1 :: 8 word) \<noteq> 0" by simp
  have h4: "length (uc_lcd_buffer power_up) = 1024" by (simp add: power_up_def)
  from set_pixel_sets_mapped_bit [OF h1 h2 h3 h4] h1 h2 h3 h4 show ?thesis by blast
qed

text \<open>
  C2, as stated: on a cleared, non-inverted buffer \<open>uc_lcd_set_pixel(63, 7, 1)\<close> sets bit 7
  of index 63 + 7 * 64 = 511. It does not: y = 7 lies in page 7 / 8 = 0, so byte 511 stays 0.
\<close>

theorem set_pixel_63_7_leaves_511:
  "\<not> bit (uc_lcd_buffer (uc_lcd_set_pixel (wiring LCD_MODE_BUFFERED LCD_DMP_CONTROL_TOGETHER)
            63 7 1 power_up) ! 511) 7"
  by (simp add: set_pixel_buffer power_up_def)

text \<open>
  C2, amended: on a cleared, non-inverted buffer, \<open>uc_lcd_set_pixel(0, 0, 1)\<close> sets bit 0 of
  index 0; \<open>(63, 7, 1)\<close> sets bit 7 of index 63 + 0 * 64 = 63; \<open>(64, 0, 1)\<close> sets bit 0 of
  index 512; \<open>(127, 63, 1)\<close> sets bit 7 of index 1023; every other byte stays 0. Index 511 is
  the byte of \<open>(63, 63, 1)\<close>.
\<close>

theorem set_pixel_boundary_cases:
  assumes "uc_lcd_buffer s = replicate 1024 0" and "uc_lcd_inverted s = 0"
  shows "uc_lcd_buffer (uc_lcd_set_pixel cfg 0 0 1 s) = (replicate 1024 0)[0 := 0x01] \<and>
    uc_lcd_buffer (uc_lcd_set_pixel cfg 63 7 1 s) = (replicate 1024 0)[63 := 0x80] \<and>
    uc_lcd_buffer (uc_lcd_set_pixel cfg 63 63 1 s) = (replicate 1024 0)[511 := 0x80] \<and>
    uc_lcd_buffer (uc_lcd_set_pixel cfg 64 0 1 s) = (replicate 1024 0)[512 := 0x01] \<and>
    uc_lcd_buffer (uc_lcd_set_pixel cfg 127 63 1 s) = (replicate 1024 0)[1023 := 0x80]"
proof -
  have a: "uc_lcd_buffer (uc_lcd_set_pixel cfg 0 0 1 s) = (replicate 1024 0)[0 := 0x01]"
    using assms by (simp add: set_pixel_buffer)
  have b: "uc_lcd_buffer (uc_lcd_set_pixel cfg 63 7 1 s) = (replicate 1024 0)[63 := 0x80]"
    using assms by (simp add: set_pixel_buffer)
  have b': "uc_lcd_buffer (uc_lcd_set_pixel cfg 63 63 1 s) = (replicate 1024 0)[511 := 0x80]"
    using assms by (simp add: set_pixel_buffer)
  have c: "uc_lcd_buffer (uc_lcd_set_pixel cfg 64 0 1 s) = (replicate 1024 0)[512 := 0x01]"
    using assms by (simp add: set_pixel_buffer)
  have d: "uc_lcd_buffer (uc_lcd_set_pixel cfg 127 63 1 s) = (replicate 1024 0)[1023 := 0x80]"
    using assms by (simp add: set_pixel_buffer)
  from a b b' c d show ?thesis by simp
qed

theorem set_pixel_boundary_cases_witness:
  "uc_lcd_buffer power_up = replicate 1024 0 \<and> uc_lcd_inverted power_up = 0 \<and>
   uc_lcd_buffer (uc_lcd_set_pixel (wiring LCD_MODE_BUFFERED LCD_DATA_MODE_SERIAL) 0 0 1 power_up) =
     (replicate 1024 0)[0 := 0x01] \<and>
   uc_lcd_buffer (uc_lcd_set_pixel (wiring LCD_MODE_BUFFERED LCD_DATA_MODE_SERIAL) 63 7 1 power_up) =
     (replicate 1024 0)[63 := 0x80] \<and>
   uc_lcd_buffer (uc_lcd_set_pixel (wiring LCD_MODE_BUFFERED LCD_DATA_MODE_SERIAL) 63 63 1 power_up) =
     (replicate 1024 0)[511 := 0x80] \<and>
   uc_lcd_buffer (uc_lcd_set_pixel (wiring LCD_MODE_BUFFERED LCD_DATA_MODE_SERIAL) 64 0 1 power_up) =
     (replicate 1024 0)[512 := 0x01] \<and>
   uc_lcd_buffer (uc_lcd_set_pixel (wiring LCD_MODE_BUFFERED LCD_DATA_MODE_SERIAL) 127 63 1 power_up) =
     (replicate 1024 0)[1023 := 0x80]"
proof -
  have h1: "uc_lcd_buffer power_up = replicate 1024 0" by (simp add: power_up_def)
  have h2: "uc_lcd_inverted power_up = 0" by (simp add: power_up_def)
  from set_pixel_boundary_cases [OF h1 h2] h1 h2 show ?thesis by blast
qed

text \<open>
  C3: for x > 127 or y > 63 and any pixel value, \<open>uc_lcd_set_pixel\<close> changes nothing: the
  buffer, the inverted flag, every other variable and the hardware are as before, and
  nothing is sent.
\<close>

theorem set_pixel_out_of_range:
  "x > 127 \<or> y > 63 \<Longrightarrow> uc_lcd_set_pixel cfg x y pixel s = s"
  by (auto simp add: uc_lcd_set_pixel_def)

theorem set_pixel_out_of_range_witness:
  "((128 :: 8 word) > 127 \<or> (0 :: 8 word) > 63) \<and>
   uc_lcd_set_pixel (wiring LCD_MODE_IMMEDIATE LCD_DMP_CONTROL_TOGETHER) 128 0 1 power_up = power_up"
proof -
  have h: "(128 :: 8 word) > 127 \<or> (0 :: 8 word) > 63" by simp
  from set_pixel_out_of_range [OF h] h show ?thesis by blast
qed

text \<open>
  C4: from a state whose inverted flag is false, \<open>uc_lcd_set_inverted(1)\<close> followed by
  \<open>uc_lcd_set_inverted(0)\<close> gives back every buffer byte and the flag; and
  \<open>uc_lcd_set_inverted\<close> called with the current value of the flag changes nothing at all.
\<close>

theorem set_inverted_round_trip:
  assumes "uc_lcd_inverted s = 0" and "length (uc_lcd_buffer s) = 1024"
  shows "uc_lcd_buffer (uc_lcd_set_inverted cfg 0 (uc_lcd_set_inverted cfg 1 s)) = uc_lcd_buffer s \<and>
    uc_lcd_inverted (uc_lcd_set_inverted cfg 0 (uc_lcd_set_inverted cfg 1 s)) = uc_lcd_inverted s \<and>
    uc_lcd_set_inverted cfg (uc_lcd_inverted t) t = t"
proof -
  have one: "uc_lcd_buffer (uc_lcd_set_inverted cfg 1 s) = map NOT (uc_lcd_buffer s) \<and>
    uc_lcd_inverted (uc_lcd_set_inverted cfg 1 s) = 1"
    using set_inverted_result [of s 1 cfg] assms by simp
  then have "uc_lcd_buffer (uc_lcd_set_inverted cfg 0 (uc_lcd_set_inverted cfg 1 s)) =
      map NOT (map NOT (uc_lcd_buffer s)) \<and>
    uc_lcd_inverted (uc_lcd_set_inverted cfg 0 (uc_lcd_set_inverted cfg 1 s)) = 0"
    using set_inverted_result [of "uc_lcd_set_inverted cfg 1 s" 0 cfg] assms by simp
  moreover have "map NOT (map NOT (uc_lcd_buffer s)) = uc_lcd_buffer s"
    by (simp add: comp_def)
  moreover have "uc_lcd_set_inverted cfg (uc_lcd_inverted t) t = t"
    by (simp add: uc_lcd_set_inverted_def)
  ultimately show ?thesis using assms by simp
qed

theorem set_inverted_round_trip_witness:
  "uc_lcd_inverted power_up = 0 \<and> length (uc_lcd_buffer power_up) = 1024 \<and>
   uc_lcd_buffer
     (uc_lcd_set_inverted (wiring LCD_MODE_IMMEDIATE LCD_DATA_MODE_SERIAL) 0
       (uc_lcd_set_inverted (wiring LCD_MODE_IMMEDIATE LCD_DATA_MODE_SERIAL) 1 power_up)) =
     uc_lcd_buffer power_up \<and>
   uc_lcd_inverted
     (uc_lcd_set_inverted (wiring LCD_MODE_IMMEDIATE LCD_DATA_MODE_SERIAL) 0
       (uc_lcd_set_inverted (wiring LCD_MODE_IMMEDIATE LCD_DATA_MODE_SERIAL) 1 power_up)) =
     uc_lcd_inverted power_up \<and>
   uc_lcd_set_inverted (wiring LCD_MODE_IMMEDIATE LCD_DATA_MODE_SERIAL)
     (uc_lcd_inverted power_up) power_up = power_up"
proof -
  have h1: "uc_lcd_inverted power_up = 0" by (simp add: power_up_def)
  have h2: "length (uc_lcd_buffer power_up) = 1024" by (simp add: power_up_def)
  from set_inverted_round_trip [OF h1 h2] h1 h2 show ?thesis by blast
qed

text \<open>
  C5: \<open>uc_lcd_clear\<close> sets every buffer byte to 0x00 when not inverted and to 0xFF when
  inverted, \<open>uc_lcd_fill\<close> to 0xFF when not inverted and to 0x00 when inverted; neither
  changes the inverted flag; so after a clear every pixel (x, y) of the display is off and
  after a fill every pixel is on, whatever the flag.
\<close>

theorem clear_and_fill:
  assumes "length (uc_lcd_buffer s) = 1024" and "x \<le> 127" and "y \<le> 63"
  shows "uc_lcd_buffer (uc_lcd_clear cfg s) =
      replicate 1024 (if uc_lcd_inverted s = 0 then 0x00 else 0xFF) \<and>
    uc_lcd_inverted (uc_lcd_clear cfg s) = uc_lcd_inverted s \<and>
    uc_lcd_buffer (uc_lcd_fill cfg s) =
      replicate 1024 (if uc_lcd_inverted s = 0 then 0xFF else 0x00) \<and>
    uc_lcd_inverted (uc_lcd_fill cfg s) = uc_lcd_inverted s \<and>
    \<not> pixel_is_on (uc_lcd_clear cfg s) x y \<and> pixel_is_on (uc_lcd_fill cfg s) x y"
proof -
  note c = clear_result [OF assms(1), of cfg]
  note f = fill_result [OF assms(1), of cfg]
  have n: "unat y mod 8 < 8" by simp
  have "\<not> pixel_is_on (uc_lcd_clear cfg s) x y \<and> pixel_is_on (uc_lcd_fill cfg s) x y"
    using pixel_index_bound [OF assms(2,3)] bit_all_ones [OF n] c f
    by (simp add: pixel_is_on_def)
  with c f show ?thesis by simp
qed

theorem clear_and_fill_witness:
  "length (uc_lcd_buffer (power_up\<lparr>uc_lcd_inverted := 1\<rparr>)) = 1024 \<and>
   (100 :: 8 word) \<le> 127 \<and> (40 :: 8 word) \<le> 63 \<and>
   uc_lcd_buffer (uc_lcd_clear (wiring LCD_MODE_IMMEDIATE LCD_DATA_MODE_SERIAL)
       (power_up\<lparr>uc_lcd_inverted := 1\<rparr>)) =
     replicate 1024 (if uc_lcd_inverted (power_up\<lparr>uc_lcd_inverted := 1\<rparr>) = 0
                     then 0x00 else 0xFF) \<and>
   uc_lcd_inverted (uc_lcd_clear (wiring LCD_MODE_IMMEDIATE LCD_DATA_MODE_SERIAL)
       (power_up\<lparr>uc_lcd_inverted := 1\<rparr>)) =
     uc_lcd_inverted (power_up\<lparr>uc_lcd_inverted := 1\<rparr>) \<and>
   uc_lcd_buffer (uc_lcd_fill (wiring LCD_MODE_IMMEDIATE LCD_DATA_MODE_SERIAL)
       (power_up\<lparr>uc_lcd_inverted := 1\<rparr>)) =
     replicate 1024 (if uc_lcd_inverted (power_up\<lparr>uc_lcd_inverted := 1\<rparr>) = 0
                     then 0xFF else 0x00) \<and>
   uc_lcd_inverted (uc_lcd_fill (wiring LCD_MODE_IMMEDIATE LCD_DATA_MODE_SERIAL)
       (power_up\<lparr>uc_lcd_inverted := 1\<rparr>)) =
     uc_lcd_inverted (power_up\<lparr>uc_lcd_inverted := 1\<rparr>) \<and>
   \<not> pixel_is_on (uc_lcd_clear (wiring LCD_MODE_IMMEDIATE LCD_DATA_MODE_SERIAL)
       (power_up\<lparr>uc_lcd_inverted := 1\<rparr>)) 100 40 \<and>
   pixel_is_on (uc_lcd_fill (wiring LCD_MODE_IMMEDIATE LCD_DATA_MODE_SERIAL)
       (power_up\<lparr>uc_lcd_inverted := 1\<rparr>)) 100 40"
proof -
  have h1: "length (uc_lcd_buffer (power_up\<lparr>uc_lcd_inverted := 1\<rparr>)) = 1024"
    by (simp add: power_up_def)
  have h2: "(100 :: 8 word) \<le> 127" by simp
  have h3: "(40 :: 8 word) \<le> 63" by simp
  from clear_and_fill [OF h1 h2 h3] h1 h2 h3 show ?thesis by blast
qed

text \<open>
  C6: in buffered mode, from a state whose \<open>uc_lcd_data_changed\<close> is set, the first
  \<open>uc_lcd_flush\<close> is one \<open>uc_lcd_send_buffer_to_lcd\<close>, whose data transfers are the 1024
  bytes of the buffer in order, and it clears the flag; the second flush changes nothing
  and sends nothing, so that the two together have sent the buffer once.
\<close>

theorem flush_twice_sends_once:
  assumes "LCD_MODE cfg = LCD_MODE_BUFFERED"
    and "uc_lcd_data_changed s \<noteq> 0"
    and "length (uc_lcd_buffer s) = 1024"
  shows "uc_lcd_flush cfg s = (uc_lcd_send_buffer_to_lcd cfg s)\<lparr>uc_lcd_data_changed := 0\<rparr> \<and>
    data_bytes (transfers (uc_lcd_flush cfg s)) = data_bytes (transfers s) @ uc_lcd_buffer s \<and>
    uc_lcd_data_changed (uc_lcd_flush cfg s) = 0 \<and>
    uc_lcd_flush cfg (uc_lcd_flush cfg s) = uc_lcd_flush cfg s \<and>
    data_bytes (transfers (uc_lcd_flush cfg (uc_lcd_flush cfg s))) =
      data_bytes (transfers s) @ uc_lcd_buffer s"
proof -
  have again: "uc_lcd_flush cfg (uc_lcd_flush cfg s) = uc_lcd_flush cfg s"
    using flush_result(4) [OF assms(2,3), of cfg]
    by (simp add: uc_lcd_flush_def [of cfg "uc_lcd_flush cfg s"])
  show ?thesis
    unfolding again using flush_result [OF assms(2,3), of cfg] by simp
qed

theorem flush_twice_sends_once_witness:
  "LCD_MODE (wiring LCD_MODE_BUFFERED LCD_DMP_CONTROL_TOGETHER) = LCD_MODE_BUFFERED \<and>
   uc_lcd_data_changed (power_up\<lparr>uc_lcd_data_changed := 1\<rparr>) \<noteq> 0 \<and>
   length (uc_lcd_buffer (power_up\<lparr>uc_lcd_data_changed := 1\<rparr>)) = 1024 \<and>
   uc_lcd_flush (wiring LCD_MODE_BUFFERED LCD_DMP_CONTROL_TOGETHER)
       (power_up\<lparr>uc_lcd_data_changed := 1\<rparr>) =
     (uc_lcd_send_buffer_to_lcd (wiring LCD_MODE_BUFFERED LCD_DMP_CONTROL_TOGETHER)
       (power_up\<lparr>uc_lcd_data_changed := 1\<rparr>))\<lparr>uc_lcd_data_changed := 0\<rparr> \<and>
   data_bytes (transfers (uc_lcd_flush (wiring LCD_MODE_BUFFERED LCD_DMP_CONTROL_TOGETHER)
       (power_up\<lparr>uc_lcd_data_changed := 1\<rparr>))) =
     data_bytes (transfers (power_up\<lparr>uc_lcd_data_changed := 1\<rparr>)) @
       uc_lcd_buffer (power_up\<lparr>uc_lcd_data_changed := 1\<rparr>) \<and>
   uc_lcd_data_changed (uc_lcd_flush (wiring LCD_MODE_BUFFERED LCD_DMP_CONTROL_TOGETHER)
       (power_up\<lparr>uc_lcd_data_changed := 1\<rparr>)) = 0 \<and>
   uc_lcd_flush (wiring LCD_MODE_BUFFERED LCD_DMP_CONTROL_TOGETHER)
       (uc_lcd_flush (wiring LCD_MODE_BUFFERED LCD_DMP_CONTROL_TOGETHER)
         (power_up\<lparr>uc_lcd_data_changed := 1\<rparr>)) =
     uc_lcd_flush (wiring LCD_MODE_BUFFERED LCD_DMP_CONTROL_TOGETHER)
       (power_up\<lparr>uc_lcd_data_changed := 1\<rparr>) \<and>
   data_bytes (transfers (uc_lcd_flush (wiring LCD_MODE_BUFFERED LCD_DMP_CONTROL_TOGETHER)
       (uc_lcd_flush (wiring LCD_MODE_BUFFERED LCD_DMP_CONTROL_TOGETHER)
         (power_up\<lparr>uc_lcd_data_changed := 1\<rparr>)))) =
     data_bytes (transfers (power_up\<lparr>uc_lcd_data_changed := 1\<rparr>)) @
       uc_lcd_buffer (power_up\<lparr>uc_lcd_data_changed := 1\<rparr>)"
proof -
  have h1: "LCD_MODE (wiring LCD_MODE_BUFFERED LCD_DMP_CONTROL_TOGETHER) = LCD_MODE_BUFFERED"
    by (simp add: wiring_def)
  have h2: "uc_lcd_data_changed (power_up\<lparr>uc_lcd_data_changed := 1\<rparr>) \<noteq> 0" by simp
  have h3: "length (uc_lcd_buffer (power_up\<lparr>uc_lcd_data_changed := 1\<rparr>)) = 1024"
    by (simp add: power_up_def)
  from flush_twice_sends_once [OF h1 h2 h3] h1 h2 h3 show ?thesis by blast
qed

text \<open>
  C7: in immediate mode with the grouping level at 0, enter, enter, leave, with any
  \<open>uc_lcd_set_pixel\<close> calls after each of them, sends nothing and changes only the buffer
  (the level stands at 1); one more leave brings the level to 0 and is one
  \<open>uc_lcd_send_buffer_to_lcd\<close>, whose data transfers are the 1024 bytes of the buffer.
\<close>

theorem grouped_changes_send_once:
  assumes imm: "LCD_MODE cfg = LCD_MODE_IMMEDIATE"
    and lvl: "uc_lcd_grouped_pixel_actions_level s = 0"
    and len: "length (uc_lcd_buffer s) = 1024"
  shows "let s1 = set_pixels cfg ps1 (uc_lcd_enter_grouped_pixel_changes s);
             s2 = set_pixels cfg ps2 (uc_lcd_enter_grouped_pixel_changes s1);
             s3 = set_pixels cfg ps3 (uc_lcd_leave_grouped_pixel_changes cfg s2);
             s4 = uc_lcd_leave_grouped_pixel_changes cfg s3
         in s3 = s\<lparr>uc_lcd_buffer := uc_lcd_buffer s3,
                     uc_lcd_grouped_pixel_actions_level := 1\<rparr> \<and>
            transfers s3 = transfers s \<and> hw s3 = hw s \<and>
            s4 = uc_lcd_send_buffer_to_lcd cfg (s3\<lparr>uc_lcd_grouped_pixel_actions_level := 0\<rparr>) \<and>
            uc_lcd_grouped_pixel_actions_level s4 = 0 \<and>
            data_bytes (transfers s4) = data_bytes (transfers s) @ uc_lcd_buffer s3 \<and>
            length (uc_lcd_buffer s3) = 1024"
proof -
  define e1 where "e1 = uc_lcd_enter_grouped_pixel_changes s"
  define s1 where "s1 = set_pixels cfg ps1 e1"
  define e2 where "e2 = uc_lcd_enter_grouped_pixel_changes s1"
  define s2 where "s2 = set_pixels cfg ps2 e2"
  define l3 where "l3 = uc_lcd_leave_grouped_pixel_changes cfg s2"
  define s3 where "s3 = set_pixels cfg ps3 l3"
  define s4 where "s4 = uc_lcd_leave_grouped_pixel_changes cfg s3"
  define b1 where "b1 = uc_lcd_buffer s1"
  define b2 where "b2 = uc_lcd_buffer s2"
  define b3 where "b3 = uc_lcd_buffer s3"
  have e1: "e1 = s\<lparr>uc_lcd_grouped_pixel_actions_level := 1\<rparr>"
    by (simp add: e1_def uc_lcd_enter_grouped_pixel_changes_def lvl)
  have "s1 = e1\<lparr>uc_lcd_buffer := b1\<rparr>"
    unfolding s1_def b1_def by (rule set_pixels_grouped [OF imm]) (simp add: e1)
  moreover have "e1\<lparr>uc_lcd_buffer := b1\<rparr> =
      s\<lparr>uc_lcd_buffer := b1, uc_lcd_grouped_pixel_actions_level := 1\<rparr>"
    by (simp add: e1)
  ultimately have s1: "s1 = s\<lparr>uc_lcd_buffer := b1, uc_lcd_grouped_pixel_actions_level := 1\<rparr>"
    by (simp only:)
  have e2: "e2 = s\<lparr>uc_lcd_buffer := b1, uc_lcd_grouped_pixel_actions_level := 2\<rparr>"
    by (simp add: e2_def s1 uc_lcd_enter_grouped_pixel_changes_def)
  have "s2 = e2\<lparr>uc_lcd_buffer := b2\<rparr>"
    unfolding s2_def b2_def by (rule set_pixels_grouped [OF imm]) (simp add: e2)
  moreover have "e2\<lparr>uc_lcd_buffer := b2\<rparr> =
      s\<lparr>uc_lcd_buffer := b2, uc_lcd_grouped_pixel_actions_level := 2\<rparr>"
    by (simp add: e2)
  ultimately have s2: "s2 = s\<lparr>uc_lcd_buffer := b2, uc_lcd_grouped_pixel_actions_level := 2\<rparr>"
    by (simp only:)
  have l3: "l3 = s\<lparr>uc_lcd_buffer := b2, uc_lcd_grouped_pixel_actions_level := 1\<rparr>"
    by (simp add: l3_def s2 uc_lcd_leave_grouped_pixel_changes_def)
  have "s3 = l3\<lparr>uc_lcd_buffer := b3\<rparr>"
    unfolding s3_def b3_def by (rule set_pixels_grouped [OF imm]) (simp add: l3)
  moreover have "l3\<lparr>uc_lcd_buffer := b3\<rparr> =
      s\<lparr>uc_lcd_buffer := b3, uc_lcd_grouped_pixel_actions_level := 1\<rparr>"
    by (simp add: l3)
  ultimately have s3': "s3 = s\<lparr>uc_lcd_buffer := b3, uc_lcd_grouped_pixel_actions_level := 1\<rparr>"
    by (simp only:)
  then have s3: "s3 = s\<lparr>uc_lcd_buffer := uc_lcd_buffer s3,
      uc_lcd_grouped_pixel_actions_level := 1\<rparr>"
    unfolding b3_def .
  have len1: "length b1 = 1024" by (simp add: b1_def s1_def e1 len)
  have len2: "length b2 = 1024" by (simp add: b2_def s2_def e2 len1)
  have len3: "length (uc_lcd_buffer s3) = 1024" by (simp add: s3_def l3 len2)
  have t3: "transfers s3 = transfers s" by (simp add: s3')
  have h3: "hw s3 = hw s" by (simp add: s3')
  have lv3: "uc_lcd_grouped_pixel_actions_level s3 = 1" by (simp add: s3')
  have s4: "s4 = uc_lcd_send_buffer_to_lcd cfg (s3\<lparr>uc_lcd_grouped_pixel_actions_level := 0\<rparr>)"
    by (simp add: s4_def uc_lcd_leave_grouped_pixel_changes_def lv3)
  have sent: "uc_lcd_grouped_pixel_actions_level s4 = 0 \<and>
      data_bytes (transfers s4) = data_bytes (transfers s) @ uc_lcd_buffer s3"
    unfolding s4
    using send_buffer_result [of "s3\<lparr>uc_lcd_grouped_pixel_actions_level := 0\<rparr>" cfg] len3 t3
    by simp
  from s3 t3 h3 s4 sent len3 show ?thesis
    unfolding Let_def s4_def [symmetric] s3_def [symmetric] l3_def [symmetric]
      s2_def [symmetric] e2_def [symmetric] s1_def [symmetric] e1_def [symmetric]
    by blast
qed

theorem grouped_changes_send_once_witness:
  "LCD_MODE (wiring LCD_MODE_IMMEDIATE LCD_DATA_MODE_SERIAL) = LCD_MODE_IMMEDIATE \<and>
   uc_lcd_grouped_pixel_actions_level power_up = 0 \<and>
   length (uc_lcd_buffer power_up) = 1024 \<and>
   (let s1 = set_pixels (wiring LCD_MODE_IMMEDIATE LCD_DATA_MODE_SERIAL) [(5, 3, 1)]
               (uc_lcd_enter_grouped_pixel_changes power_up);
        s2 = set_pixels (wiring LCD_MODE_IMMEDIATE LCD_DATA_MODE_SERIAL) [(70, 9, 1), (5, 3, 0)]
               (uc_lcd_enter_grouped_pixel_changes s1);
        s3 = set_pixels (wiring LCD_MODE_IMMEDIATE LCD_DATA_MODE_SERIAL) [(127, 63, 1)]
               (uc_lcd_leave_grouped_pixel_changes
                 (wiring LCD_MODE_IMMEDIATE LCD_DATA_MODE_SERIAL) s2);
        s4 = uc_lcd_leave_grouped_pixel_changes
               (wiring LCD_MODE_IMMEDIATE LCD_DATA_MODE_SERIAL) s3
    in s3 = power_up\<lparr>uc_lcd_buffer := uc_lcd_buffer s3,
                      uc_lcd_grouped_pixel_actions_level := 1\<rparr> \<and>
       transfers s3 = transfers power_up \<and> hw s3 = hw power_up \<and>
       s4 = uc_lcd_send_buffer_to_lcd (wiring LCD_MODE_IMMEDIATE LCD_DATA_MODE_SERIAL)
              (s3\<lparr>uc_lcd_grouped_pixel_actions_level := 0\<rparr>) \<and>
       uc_lcd_grouped_pixel_actions_level s4 = 0 \<and>
       data_bytes (transfers s4) = data_bytes (transfers power_up) @ uc_lcd_buffer s3 \<and>
       length (uc_lcd_buffer s3) = 1024)"
proof -
  have h1: "LCD_MODE (wiring LCD_MODE_IMMEDIATE LCD_DATA_MODE_SERIAL) = LCD_MODE_IMMEDIATE"
    by (simp add: wiring_def)
  have h2: "uc_lcd_grouped_pixel_actions_level power_up = 0" by (simp add: power_up_def)
  have h3: "length (uc_lcd_buffer power_up) = 1024" by (simp add: power_up_def)
  from grouped_changes_send_once [OF h1 h2 h3] h1 h2 h3 show ?thesis by blast
qed

text \<open>
  C8 says that in immediate mode a column setter sends its command exactly when the column
  differs from the chip's cached column. Both setters compare with the cached page instead:
  with column 0 and page 5 cached, setting column 5 sends nothing and leaves the cache at
  column 0; with column 3 and page 0 cached, setting column 3 sends the command again.
\<close>

theorem set_column_compares_with_page:
  "uc_lcd_set_column_chip_1 (wiring LCD_MODE_IMMEDIATE LCD_DATA_MODE_SERIAL) 5
     (power_up\<lparr>uc_lcd_current_column_chip1 := 0, uc_lcd_current_page_chip1 := 5\<rparr>) =
   power_up\<lparr>uc_lcd_current_column_chip1 := 0, uc_lcd_current_page_chip1 := 5\<rparr> \<and>
   transfers (uc_lcd_set_column_chip_1 (wiring LCD_MODE_IMMEDIATE LCD_DATA_MODE_SERIAL) 3
     (power_up\<lparr>uc_lcd_current_column_chip1 := 3, uc_lcd_current_page_chip1 := 0\<rparr>)) =
   [Transfer 1 0 0 0x43] \<and>
   uc_lcd_set_column_chip_2 (wiring LCD_MODE_IMMEDIATE LCD_DATA_MODE_SERIAL) 5
     (power_up\<lparr>uc_lcd_current_column_chip2 := 0, uc_lcd_current_page_chip2 := 5\<rparr>) =
   power_up\<lparr>uc_lcd_current_column_chip2 := 0, uc_lcd_current_page_chip2 := 5\<rparr> \<and>
   transfers (uc_lcd_set_column_chip_2 (wiring LCD_MODE_IMMEDIATE LCD_DATA_MODE_SERIAL) 3
     (power_up\<lparr>uc_lcd_current_column_chip2 := 3, uc_lcd_current_page_chip2 := 0\<rparr>)) =
   [Transfer 0 1 0 0x43]"
  by (simp add: uc_lcd_set_column_chip_1_def uc_lcd_set_column_chip_2_def wiring_def power_up_def)

text \<open>
  C9 says that the three transports present the same CSEL1, CSEL2, Command/Data and data
  byte to the display. From low registers, \<open>uc_lcd_send(1, 0, 0, 0x40)\<close> presents
  (1, 0, 0) with shared control registers and in serial mode, and (1, 1, 1) with
  individual control registers, which receive \<open>csel1\<close> on all three lines. Both parallel
  bodies only ever OR into the control lines: after \<open>uc_lcd_send(1, 1, 0, 0x3F)\<close>, the
  send \<open>(1, 0, 1, 0xA5)\<close> presents CSEL2 high with shared control registers and low in
  serial mode.
\<close>

theorem parallel_sends_differ_from_serial:
  "latched (hw (uc_lcd_send (wiring LCD_MODE_BUFFERED LCD_DMP_CONTROL_INDIVIDUAL)
      1 0 0 0x40 power_up)) = [Lines True True True 0x40] \<and>
   latched (hw (uc_lcd_send (wiring LCD_MODE_BUFFERED LCD_DMP_CONTROL_TOGETHER)
      1 0 0 0x40 power_up)) = [Lines True False False 0x40] \<and>
   latched (hw (uc_lcd_send (wiring LCD_MODE_BUFFERED LCD_DATA_MODE_SERIAL)
      1 0 0 0x40 power_up)) = [Lines True False False 0x40] \<and>
   latched (hw (uc_lcd_send (wiring LCD_MODE_BUFFERED LCD_DMP_CONTROL_TOGETHER) 1 0 1 0xA5
      (uc_lcd_send (wiring LCD_MODE_BUFFERED LCD_DMP_CONTROL_TOGETHER) 1 1 0 0x3F power_up))) =
     [Lines True True False 0x3F, Lines True True True 0xA5] \<and>
   latched (hw (uc_lcd_send (wiring LCD_MODE_BUFFERED LCD_DATA_MODE_SERIAL) 1 0 1 0xA5
      (uc_lcd_send (wiring LCD_MODE_BUFFERED LCD_DATA_MODE_SERIAL) 1 1 0 0x3F power_up))) =
     [Lines True True False 0x3F, Lines True False True 0xA5]"
  by code_simp

text \<open>
  C10, as stated: \<open>uc_lcd_turn_on\<close> and \<open>uc_lcd_turn_off\<close> send their byte as a data
  transfer. They send it with Command/Data low, as a command.
\<close>

theorem turn_on_is_no_data_transfer:
  "\<not> is_data (last (transfers
        (uc_lcd_turn_on (wiring LCD_MODE_BUFFERED LCD_DATA_MODE_SERIAL) power_up))) \<and>
   \<not> is_data (last (transfers
        (uc_lcd_turn_off (wiring LCD_MODE_BUFFERED LCD_DATA_MODE_SERIAL) power_up)))"
  by (simp add: uc_lcd_turn_on_def uc_lcd_turn_off_def is_data_def)

text \<open>
  C10, amended: \<open>uc_lcd_turn_on\<close> sends 0x3F and \<open>uc_lcd_turn_off\<close> 0x3E as commands to
  both chips; \<open>uc_lcd_set_startline\<close> sends 0b11000000 | l as a command to both chips; a
  page setter sends nothing when, in immediate mode, the page is the cached one, and
  otherwise the command 0b10111000 | (p & 0b111) with the chip select of its chip only; a
  column setter sends, in buffered mode always, the command 0b01000000 | (c & 0b111111)
  with the chip select of its chip only, and in immediate mode either that command or
  nothing; the two write functions send their byte as data with the chip select of their
  chip only.
\<close>

theorem command_encoding:
  "transfers (uc_lcd_turn_on cfg s) = transfers s @ [Transfer 1 1 0 0x3F] \<and>
   transfers (uc_lcd_turn_off cfg s) = transfers s @ [Transfer 1 1 0 0x3E] \<and>
   transfers (uc_lcd_set_startline cfg l s) = transfers s @ [Transfer 1 1 0 (0xC0 OR l)] \<and>
   transfers (uc_lcd_set_page_chip_1 cfg p s) =
     (if LCD_MODE cfg = LCD_MODE_IMMEDIATE \<and> p = uc_lcd_current_page_chip1 s
      then transfers s
      else transfers s @ [Transfer 1 0 0 (0xB8 OR (p AND 0x07))]) \<and>
   transfers (uc_lcd_set_page_chip_2 cfg p s) =
     (if LCD_MODE cfg = LCD_MODE_IMMEDIATE \<and> p = uc_lcd_current_page_chip2 s
      then transfers s
      else transfers s @ [Transfer 0 1 0 (0xB8 OR (p AND 0x07))]) \<and>
   (if LCD_MODE cfg = LCD_MODE_BUFFERED
    then transfers (uc_lcd_set_column_chip_1 cfg c s) =
           transfers s @ [Transfer 1 0 0 (0x40 OR (c AND 0x3F))]
    else transfers (uc_lcd_set_column_chip_1 cfg c s) = transfers s \<or>
         transfers (uc_lcd_set_column_chip_1 cfg c s) =
           transfers s @ [Transfer 1 0 0 (0x40 OR (c AND 0x3F))]) \<and>
   (if LCD_MODE cfg = LCD_MODE_BUFFERED
    then transfers (uc_lcd_set_column_chip_2 cfg c s) =
           transfers s @ [Transfer 0 1 0 (0x40 OR (c AND 0x3F))]
    else transfers (uc_lcd_set_column_chip_2 cfg c s) = transfers s \<or>
         transfers (uc_lcd_set_column_chip_2 cfg c s) =
           transfers s @ [Transfer 0 1 0 (0x40 OR (c AND 0x3F))]) \<and>
   transfers (uc_lcd_write_chip1 cfg d s) = transfers s @ [Transfer 1 0 1 d] \<and>
   transfers (uc_lcd_write_chip2 cfg d s) = transfers s @ [Transfer 0 1 1 d] \<and>
   \<not> is_data (Transfer 1 1 0 0x3F) \<and> \<not> is_data (Transfer 1 1 0 0x3E) \<and>
   \<not> is_data (Transfer 1 1 0 (0xC0 OR l)) \<and>
   \<not> is_data (Transfer 1 0 0 (0xB8 OR (p AND 0x07))) \<and>
   \<not> is_data (Transfer 0 1 0 (0xB8 OR (p AND 0x07))) \<and>
   \<not> is_data (Transfer 1 0 0 (0x40 OR (c AND 0x3F))) \<and>
   \<not> is_data (Transfer 0 1 0 (0x40 OR (c AND 0x3F))) \<and>
   is_data (Transfer 1 0 1 d) \<and> is_data (Transfer 0 1 1 d)"
proof -
  have page: "transfers (uc_lcd_set_page_chip_1 cfg p s) =
     (if LCD_MODE cfg = LCD_MODE_IMMEDIATE \<and> p = uc_lcd_current_page_chip1 s
      then transfers s
      else transfers s @ [Transfer 1 0 0 (0xB8 OR (p AND 0x07))])"
    "transfers (uc_lcd_set_page_chip_2 cfg p s) =
     (if LCD_MODE cfg = LCD_MODE_IMMEDIATE \<and> p = uc_lcd_current_page_chip2 s
      then transfers s
      else transfers s @ [Transfer 0 1 0 (0xB8 OR (p AND 0x07))])"
    by (cases "LCD_MODE cfg"; simp add: uc_lcd_set_page_chip_1_def uc_lcd_set_page_chip_2_def)+
  have column: "if LCD_MODE cfg = LCD_MODE_BUFFERED
      then transfers (uc_lcd_set_column_chip_1 cfg c s) =
             transfers s @ [Transfer 1 0 0 (0x40 OR (c AND 0x3F))]
      else transfers (uc_lcd_set_column_chip_1 cfg c s) = transfers s \<or>
           transfers (uc_lcd_set_column_chip_1 cfg c s) =
             transfers s @ [Transfer 1 0 0 (0x40 OR (c AND 0x3F))]"
    "if LCD_MODE cfg = LCD_MODE_BUFFERED
      then transfers (uc_lcd_set_column_chip_2 cfg c s) =
             transfers s @ [Transfer 0 1 0 (0x40 OR (c AND 0x3F))]
      else transfers (uc_lcd_set_column_chip_2 cfg c s) = transfers s \<or>
           transfers (uc_lcd_set_column_chip_2 cfg c s) =
             transfers s @ [Transfer 0 1 0 (0x40 OR (c AND 0x3F))]"
    by (cases "LCD_MODE cfg"; simp add: uc_lcd_set_column_chip_1_def uc_lcd_set_column_chip_2_def)+
  have fixed: "transfers (uc_lcd_turn_on cfg s) = transfers s @ [Transfer 1 1 0 0x3F]"
    "transfers (uc_lcd_turn_off cfg s) = transfers s @ [Transfer 1 1 0 0x3E]"
    "transfers (uc_lcd_set_startline cfg l s) = transfers s @ [Transfer 1 1 0 (0xC0 OR l)]"
    by (simp_all add: uc_lcd_turn_on_def uc_lcd_turn_off_def uc_lcd_set_startline_def)
  have data_sent: "transfers (uc_lcd_write_chip1 cfg d s) = transfers s @ [Transfer 1 0 1 d]"
    "transfers (uc_lcd_write_chip2 cfg d s) = transfers s @ [Transfer 0 1 1 d]"
    by (cases "LCD_MODE cfg"; simp add: uc_lcd_write_chip1_def uc_lcd_write_chip2_def)+
  have kinds: "\<not> is_data (Transfer a b 0 v)" "is_data (Transfer a b 1 v)" for a b v
    by (simp_all add: is_data_def)
  from page column fixed data_sent show ?thesis
    by (simp only: kinds simp_thms)
qed

end
